theory Spec2Isabelle
  imports Main
begin

section \<open>Basic types: time, identifiers, errors\<close>

text \<open>
  A \<^verbatim>\<open>time.Time\<close> instant is the number of nanoseconds since the Unix epoch and a
  \<^verbatim>\<open>time.Duration\<close> is a number of nanoseconds. Both are unbounded integers here; the
  64-bit range of the Go types plays no role in what follows.
\<close>

type_synonym time = int
type_synonym duration = int

definition second :: duration where
  "second = 1000000000"

definition millisecond :: duration where
  "millisecond = 1000000"

text \<open>
  A Go string that the program inspects character by character (an email address, a
  name) is the list of its Unicode code points; opaque strings (tokens, secrets, hashes,
  messages) are \<^typ>\<open>string\<close>. A \<^verbatim>\<open>primitive.ObjectID\<close> is a natural number.
\<close>

type_synonym rune = nat
type_synonym ObjectID = nat

text \<open>
  Errors are values. \<open>Errorf p e\<close> is \<^verbatim>\<open>fmt.Errorf(p + ": %w", e)\<close>. The sentinels of the
  JWT library keep their names; \<open>ErrTokenInvalidClaims es\<close> carries the joined errors
  of the claims validator. \<open>ErrDriver\<close> stands for any failure of the MongoDB driver
  other than \<^verbatim>\<open>mongo.ErrNoDocuments\<close> (time-out, network, duplicate key),
  \<open>ErrRandRead\<close> for a failure of \<^verbatim>\<open>crypto/rand\<close>.
\<close>

datatype error =
    ErrInvalidCredentials
  | ErrInvalidRefreshToken
  | ErrEmailExists
  | ErrDriver
  | ErrRandRead
  | ErrBcrypt
  | ErrTokenMalformed
  | ErrTokenUnverifiable
  | ErrTokenSignatureInvalid
  | ErrTokenExpired
  | ErrTokenNotValidYet
  | ErrTokenInvalidClaims "error list"
  | ErrInvalidTokenClaims
  | Errorf string error

section \<open>JWT access tokens (internal/domain/auth/jwt.go)\<close>

subsection \<open>The JWT library as the code uses it\<close>

text \<open>
  The package \<^verbatim>\<open>github.com/golang-jwt/jwt/v5\<close> is not part of the repository. The part
  of it that \<^verbatim>\<open>jwt.go\<close> calls is written out: the registered signing methods, the
  parser with its order of checks (segments, algorithm lookup, key function, signature,
  claims) and the default claims validator (no leeway, \<^verbatim>\<open>exp\<close> and \<^verbatim>\<open>nbf\<close> checked when
  present, \<^verbatim>\<open>iat\<close> not checked).
\<close>

datatype hash_fn = SHA256 | SHA384 | SHA512

datatype SigningMethod =
    SigningMethodHMAC hash_fn
  | SigningMethodRSA hash_fn
  | SigningMethodRSAPSS hash_fn
  | SigningMethodECDSA hash_fn
  | SigningMethodEd25519
  | SigningMethodNone

definition SigningMethodHS256 :: SigningMethod where
  "SigningMethodHS256 = SigningMethodHMAC SHA256"

definition signingMethods :: "(string \<times> SigningMethod) list" where
  "signingMethods =
    [(''HS256'', SigningMethodHMAC SHA256), (''HS384'', SigningMethodHMAC SHA384),
     (''HS512'', SigningMethodHMAC SHA512),
     (''RS256'', SigningMethodRSA SHA256), (''RS384'', SigningMethodRSA SHA384),
     (''RS512'', SigningMethodRSA SHA512),
     (''PS256'', SigningMethodRSAPSS SHA256), (''PS384'', SigningMethodRSAPSS SHA384),
     (''PS512'', SigningMethodRSAPSS SHA512),
     (''ES256'', SigningMethodECDSA SHA256), (''ES384'', SigningMethodECDSA SHA384),
     (''ES512'', SigningMethodECDSA SHA512),
     (''EdDSA'', SigningMethodEd25519), (''none'', SigningMethodNone)]"

definition GetSigningMethod :: "string \<Rightarrow> SigningMethod option" where
  "GetSigningMethod alg = map_of signingMethods alg"

fun Alg :: "SigningMethod \<Rightarrow> string" where
  "Alg (SigningMethodHMAC SHA256) = ''HS256''"
| "Alg (SigningMethodHMAC SHA384) = ''HS384''"
| "Alg (SigningMethodHMAC SHA512) = ''HS512''"
| "Alg (SigningMethodRSA SHA256) = ''RS256''"
| "Alg (SigningMethodRSA SHA384) = ''RS384''"
| "Alg (SigningMethodRSA SHA512) = ''RS512''"
| "Alg (SigningMethodRSAPSS SHA256) = ''PS256''"
| "Alg (SigningMethodRSAPSS SHA384) = ''PS384''"
| "Alg (SigningMethodRSAPSS SHA512) = ''PS512''"
| "Alg (SigningMethodECDSA SHA256) = ''ES256''"
| "Alg (SigningMethodECDSA SHA384) = ''ES384''"
| "Alg (SigningMethodECDSA SHA512) = ''ES512''"
| "Alg SigningMethodEd25519 = ''EdDSA''"
| "Alg SigningMethodNone = ''none''"

text \<open>
  \<^verbatim>\<open>Claims\<close> of \<^verbatim>\<open>jwt.go\<close>: the email and the registered claims the code and the
  validator read. A \<^verbatim>\<open>*NumericDate\<close> is an optional number of whole seconds:
  \<^verbatim>\<open>NewNumericDate\<close> truncates to the library's \<^verbatim>\<open>TimePrecision\<close>, one second, and so
  does the parser.
\<close>

record Claims =
  Email :: "rune list"
  Subject :: string
  IssuedAt :: "int option"
  NotBefore :: "int option"
  ExpiresAt :: "int option"

definition NewNumericDate :: "time \<Rightarrow> int" where
  "NewNumericDate t = t div second"

definition numericDateTime :: "int \<Rightarrow> time" where
  "numericDateTime s = s * second"

text \<open>
  A token string is either a string that does not split into three segments of which
  the first two decode, or the compact serialisation of a header (its \<^verbatim>\<open>alg\<close> entry, if
  it has one that is a string), a claims object and a third segment: the signature, or
  \<open>None\<close> when the segment is not base64url. The message that is signed is the first
  two segments. The JSON and base64url coding itself is not modelled: it gives back
  what was encoded, strings being valid UTF-8.
\<close>

datatype token_string =
    Garbage
  | Compact "string option" Claims "string option"

type_synonym signing_input = "string option \<times> Claims"

text \<open>
  The keyed hash \<^verbatim>\<open>hmac.New(hash, key)\<close> over the signing input is a parameter \<open>mac\<close> of
  everything that signs or verifies: nothing is assumed about it.
\<close>

type_synonym hmac = "hash_fn \<Rightarrow> string \<Rightarrow> signing_input \<Rightarrow> string"

record Token =
  Method :: SigningMethod
  HeaderAlg :: "string option"
  TokenClaims :: Claims
  Signature :: string
  Valid :: bool

text \<open>\<^verbatim>\<open>ParseUnverified\<close> returns the token and the segments; the third one is kept here.\<close>

definition ParseUnverified :: "token_string \<Rightarrow> error + Token \<times> string option" where
  "ParseUnverified tokenString =
    (case tokenString of
       Garbage \<Rightarrow> Inl ErrTokenMalformed
     | Compact alg claims part \<Rightarrow>
        (case alg of
           None \<Rightarrow> Inl ErrTokenUnverifiable
         | Some a \<Rightarrow>
            (case GetSigningMethod a of
               None \<Rightarrow> Inl ErrTokenUnverifiable
             | Some m \<Rightarrow>
                 Inr (\<lparr>Method = m, HeaderAlg = alg, TokenClaims = claims,
                       Signature = [], Valid = False\<rparr>, part))))"

text \<open>
  \<^verbatim>\<open>Verify\<close> with a key of type \<^verbatim>\<open>[]byte\<close>, the only kind of key the code supplies: the
  HMAC methods compare the keyed hash, every other method refuses the key.
\<close>

definition Verify :: "hmac \<Rightarrow> SigningMethod \<Rightarrow> signing_input \<Rightarrow> string \<Rightarrow> string \<Rightarrow> bool" where
  "Verify mac m signingString sig key =
    (case m of SigningMethodHMAC h \<Rightarrow> mac h key signingString = sig | _ \<Rightarrow> False)"

definition verifyExpiresAt :: "time \<Rightarrow> Claims \<Rightarrow> error list" where
  "verifyExpiresAt now claims =
    (case ExpiresAt claims of
       None \<Rightarrow> []
     | Some exp \<Rightarrow> if now < numericDateTime exp then [] else [ErrTokenExpired])"

definition verifyNotBefore :: "time \<Rightarrow> Claims \<Rightarrow> error list" where
  "verifyNotBefore now claims =
    (case NotBefore claims of
       None \<Rightarrow> []
     | Some nbf \<Rightarrow> if \<not> now < numericDateTime nbf then [] else [ErrTokenNotValidYet])"

definition Validate :: "time \<Rightarrow> Claims \<Rightarrow> error list" where
  "Validate now claims = verifyExpiresAt now claims @ verifyNotBefore now claims"

definition ParseWithClaims ::
  "hmac \<Rightarrow> time \<Rightarrow> token_string \<Rightarrow> (Token \<Rightarrow> error + string) \<Rightarrow> error + Token" where
  "ParseWithClaims mac now tokenString keyFunc =
    (case ParseUnverified tokenString of
       Inl err \<Rightarrow> Inl err
     | Inr (token, part) \<Rightarrow>
        (case keyFunc token of
           Inl err \<Rightarrow> Inl ErrTokenUnverifiable
         | Inr key \<Rightarrow>
            (case part of
               None \<Rightarrow> Inl ErrTokenMalformed
             | Some sig \<Rightarrow>
                 if \<not> Verify mac (Method token) (HeaderAlg token, TokenClaims token) sig key
                 then Inl ErrTokenSignatureInvalid
                 else (case Validate now (TokenClaims token) of
                         [] \<Rightarrow> Inr (token\<lparr>Signature := sig, Valid := True\<rparr>)
                       | errs \<Rightarrow> Inl (ErrTokenInvalidClaims errs)))))"

definition SignedString :: "hmac \<Rightarrow> SigningMethod \<Rightarrow> Claims \<Rightarrow> string \<Rightarrow> error + token_string" where
  "SignedString mac m claims key =
    (case m of
       SigningMethodHMAC h \<Rightarrow>
         Inr (Compact (Some (Alg m)) claims (Some (mac h key (Some (Alg m), claims))))
     | _ \<Rightarrow> Inl ErrTokenUnverifiable)"

subsection \<open>JWTManager\<close>

record JWTManager =
  secret :: string
  accessTTL :: duration

definition NewJWTManager :: "string \<Rightarrow> duration \<Rightarrow> JWTManager" where
  "NewJWTManager s ttl = \<lparr>secret = s, accessTTL = ttl\<rparr>"

definition GenerateAccessToken ::
  "hmac \<Rightarrow> JWTManager \<Rightarrow> time \<Rightarrow> string \<Rightarrow> rune list \<Rightarrow> error + token_string" where
  "GenerateAccessToken mac j now userID email =
    (let claims = \<lparr>Email = email, Subject = userID,
                    IssuedAt = Some (NewNumericDate now),
                    NotBefore = None,
                    ExpiresAt = Some (NewNumericDate (now + accessTTL j))\<rparr>
     in SignedString mac SigningMethodHS256 claims (secret j))"

text \<open>The key function of \<^verbatim>\<open>ValidateAccessToken\<close>: a type test on the method.\<close>

definition keyFunc :: "JWTManager \<Rightarrow> Token \<Rightarrow> error + string" where
  "keyFunc j t =
    (case Method t of
       SigningMethodHMAC h \<Rightarrow> Inr (secret j)
     | _ \<Rightarrow> Inl ErrTokenUnverifiable)"

definition ValidateAccessToken ::
  "hmac \<Rightarrow> JWTManager \<Rightarrow> time \<Rightarrow> token_string \<Rightarrow> error + Claims" where
  "ValidateAccessToken mac j now tokenStr =
    (case ParseWithClaims mac now tokenStr (keyFunc j) of
       Inl err \<Rightarrow> Inl (Errorf ''invalid token'' err)
     | Inr token \<Rightarrow>
         if \<not> Valid token then Inl ErrInvalidTokenClaims
         else Inr (TokenClaims token))"

text \<open>
  \<^verbatim>\<open>int(j.accessTTL.Seconds())\<close>: the conversion truncates toward zero. (The exact
  float arithmetic of \<^verbatim>\<open>Seconds\<close> agrees with this below \<open>2 ^ 24\<close> seconds.)
\<close>

definition AccessTTLSeconds :: "JWTManager \<Rightarrow> int" where
  "AccessTTLSeconds j =
    (if 0 \<le> accessTTL j then accessTTL j div second else - ((- accessTTL j) div second))"

section \<open>What each call receives from outside\<close>

text \<open>
  Everything a call reads that is not its argument or the database: the clock, the
  identifier and the random string the generators hand out, the salted hash bcrypt
  produces, and whether a driver call fails. One call sees one clock reading.
  \<open>randToken\<close> is the result of \<^verbatim>\<open>GenerateRefreshTokenString\<close>'s
  \<^verbatim>\<open>base64.URLEncoding.EncodeToString\<close> over 32 random bytes, \<open>None\<close> when
  \<^verbatim>\<open>rand.Read\<close> fails. A failed driver call leaves the collection as it was.
\<close>

record env =
  clock :: time
  newObjectID :: ObjectID
  randToken :: "string option"
  bcryptHash :: "string option"
  userFindFails :: bool
  userInsertFails :: bool
  tokenFindFails :: bool
  tokenUpdateFails :: bool
  tokenInsertFails :: bool

text \<open>
  The library functions whose results depend only on their arguments are parameters:
  the keyed hash, \<^verbatim>\<open>bcrypt.CompareHashAndPassword(hash, password) == nil\<close>, and the
  lower-case mapping of the Unicode tables beyond ASCII.
\<close>

record primitives =
  hmacSum :: hmac
  CompareHashAndPassword :: "string \<Rightarrow> string \<Rightarrow> bool"
  caseTable :: "rune \<Rightarrow> rune"

text \<open>A \<^verbatim>\<open>time.Time\<close> stored in BSON keeps milliseconds.\<close>

definition bsonDateTime :: "time \<Rightarrow> time" where
  "bsonDateTime t = (t div millisecond) * millisecond"

text \<open>\<^verbatim>\<open>time.Time{}\<close>, the first instant of year 1.\<close>

definition zeroTime :: time where
  "zeroTime = - 62135596800 * second"

definition hexDigit :: "nat \<Rightarrow> char" where
  "hexDigit d = ''0123456789abcdef'' ! (d mod 16)"

definition Hex :: "ObjectID \<Rightarrow> string" where
  "Hex oid = map (\<lambda>i. hexDigit (oid div 16 ^ i)) (rev [0..<24])"

text \<open>\<^verbatim>\<open>UpdateOne\<close> changes the first document that matches, \<^verbatim>\<open>UpdateMany\<close> all of them.\<close>

fun UpdateOne :: "('a \<Rightarrow> bool) \<Rightarrow> ('a \<Rightarrow> 'a) \<Rightarrow> 'a list \<Rightarrow> 'a list" where
  "UpdateOne p f [] = []"
| "UpdateOne p f (d # ds) = (if p d then f d # ds else d # UpdateOne p f ds)"

definition UpdateMany :: "('a \<Rightarrow> bool) \<Rightarrow> ('a \<Rightarrow> 'a) \<Rightarrow> 'a list \<Rightarrow> 'a list" where
  "UpdateMany p f ds = map (\<lambda>d. if p d then f d else d) ds"

section \<open>Users (package user)\<close>

subsection \<open>strings.TrimSpace and strings.ToLower\<close>

definition unicode_IsSpace :: "rune \<Rightarrow> bool" where
  "unicode_IsSpace r =
    (if r \<le> 255
     then r = 9 \<or> r = 10 \<or> r = 11 \<or> r = 12 \<or> r = 13 \<or> r = 32 \<or> r = 133 \<or> r = 160
     else r = 5760 \<or> (8192 \<le> r \<and> r \<le> 8202) \<or> r = 8232 \<or> r = 8233 \<or> r = 8239
          \<or> r = 8287 \<or> r = 12288)"

definition unicode_ToLower :: "(rune \<Rightarrow> rune) \<Rightarrow> rune \<Rightarrow> rune" where
  "unicode_ToLower tab r =
    (if r \<le> 127 then (if 65 \<le> r \<and> r \<le> 90 then r + 32 else r) else tab r)"

definition TrimSpace :: "rune list \<Rightarrow> rune list" where
  "TrimSpace s = rev (dropWhile unicode_IsSpace (rev (dropWhile unicode_IsSpace s)))"

definition ToLower :: "(rune \<Rightarrow> rune) \<Rightarrow> rune list \<Rightarrow> rune list" where
  "ToLower tab s = map (unicode_ToLower tab) s"

subsection \<open>Model and repository\<close>

record User =
  ID :: ObjectID
  Name :: "rune list"
  Email :: "rune list"
  PasswordHash :: string
  Role :: string
  CreatedAt :: time
  UpdatedAt :: time

definition RoleUser :: string where
  "RoleUser = ''user''"

record RegisterRequest =
  Name :: "rune list"
  Email :: "rune list"
  Password :: string

text \<open>
  The collection \<^verbatim>\<open>users\<close> is the list of its documents in insertion order. Its unique
  indexes are \<^verbatim>\<open>_id\<close> and \<^verbatim>\<open>email\<close> (\<^verbatim>\<open>EnsureIndexes\<close>); an insert that would break one
  is a duplicate-key error.
\<close>

definition Create :: "env \<Rightarrow> User \<Rightarrow> User list \<Rightarrow> (error + User) \<times> User list" where
  "Create env u col =
    (let u' = u\<lparr>User.ID := newObjectID env,
                User.CreatedAt := clock env, User.UpdatedAt := clock env\<rparr>
     in if list_ex (\<lambda>d. User.ID d = User.ID u' \<or> User.Email d = User.Email u') col
        then (Inl ErrEmailExists, col)
        else if userInsertFails env then (Inl (Errorf ''user repo create'' ErrDriver), col)
        else (Inr u',
              col @ [u'\<lparr>User.CreatedAt := bsonDateTime (clock env),
                        User.UpdatedAt := bsonDateTime (clock env)\<rparr>]))"

definition FindByEmail :: "env \<Rightarrow> rune list \<Rightarrow> User list \<Rightarrow> error + User option" where
  "FindByEmail env email col =
    (if userFindFails env then Inl (Errorf ''user repo findByEmail'' ErrDriver)
     else Inr (find (\<lambda>d. User.Email d = email) col))"

subsection \<open>Service\<close>

definition Register ::
  "primitives \<Rightarrow> env \<Rightarrow> RegisterRequest \<Rightarrow> User list \<Rightarrow> (error + User) \<times> User list" where
  "Register P env req col =
    (let email = ToLower (caseTable P) (TrimSpace (RegisterRequest.Email req))
     in case bcryptHash env of
          None \<Rightarrow> (Inl (Errorf ''user service hash'' ErrBcrypt), col)
        | Some hash \<Rightarrow>
            Create env
              \<lparr>User.ID = 0, User.Name = TrimSpace (RegisterRequest.Name req),
               User.Email = email, PasswordHash = hash, Role = RoleUser,
               User.CreatedAt = zeroTime, User.UpdatedAt = zeroTime\<rparr> col)"

definition Authenticate ::
  "primitives \<Rightarrow> env \<Rightarrow> rune list \<Rightarrow> string \<Rightarrow> User list \<Rightarrow> error + User" where
  "Authenticate P env email password col =
    (let email = ToLower (caseTable P) (TrimSpace email)
     in case FindByEmail env email col of
          Inl err \<Rightarrow> Inl (Errorf ''user service auth'' err)
        | Inr None \<Rightarrow> Inl ErrInvalidCredentials
        | Inr (Some u) \<Rightarrow>
            if \<not> CompareHashAndPassword P (PasswordHash u) password
            then Inl ErrInvalidCredentials
            else Inr u)"

section \<open>Refresh tokens (package auth)\<close>

subsection \<open>Model (model.go)\<close>

record RefreshToken =
  ID :: ObjectID
  UserID :: ObjectID
  Token :: string
  ExpiresAt :: time
  Revoked :: bool
  CreatedAt :: time

record TokenResponse =
  AccessToken :: token_string
  AccessTokenExpiresIn :: int
  RefreshToken :: string
  TokenType :: string

subsection \<open>Repository (repository.go)\<close>

text \<open>
  The collection \<^verbatim>\<open>refresh_tokens\<close> is the list of its documents in insertion order.
  Its unique indexes are \<^verbatim>\<open>_id\<close> and the pair \<^verbatim>\<open>(user_id, token)\<close> (\<^verbatim>\<open>EnsureIndexes\<close>).
  Each driver call is one atomic operation on the collection.
\<close>

definition duplicateKey :: "RefreshToken \<Rightarrow> RefreshToken list \<Rightarrow> bool" where
  "duplicateKey rt col =
    list_ex (\<lambda>d. RefreshToken.ID d = RefreshToken.ID rt
                \<or> (UserID d = UserID rt \<and> Token d = Token rt)) col"

definition CreateRefreshToken ::
  "env \<Rightarrow> RefreshToken \<Rightarrow> RefreshToken list \<Rightarrow> error option \<times> RefreshToken list" where
  "CreateRefreshToken env rt col =
    (let rt' = rt\<lparr>RefreshToken.ID := newObjectID env,
                  RefreshToken.CreatedAt := clock env\<rparr>
     in if tokenInsertFails env \<or> duplicateKey rt' col
        then (Some (Errorf ''auth repo create'' ErrDriver), col)
        else (None,
              col @ [rt'\<lparr>RefreshToken.ExpiresAt := bsonDateTime (RefreshToken.ExpiresAt rt'),
                         RefreshToken.CreatedAt := bsonDateTime (clock env)\<rparr>]))"

definition FindRefreshToken ::
  "env \<Rightarrow> string \<Rightarrow> RefreshToken list \<Rightarrow> error + RefreshToken option" where
  "FindRefreshToken env token col =
    (if tokenFindFails env then Inl (Errorf ''auth repo find'' ErrDriver)
     else Inr (find (\<lambda>d. Token d = token \<and> Revoked d = False) col))"

definition RevokeRefreshToken ::
  "env \<Rightarrow> ObjectID \<Rightarrow> RefreshToken list \<Rightarrow> error option \<times> RefreshToken list" where
  "RevokeRefreshToken env oid col =
    (if tokenUpdateFails env then (Some (Errorf ''auth repo revoke'' ErrDriver), col)
     else (None, UpdateOne (\<lambda>d. RefreshToken.ID d = oid) (\<lambda>d. d\<lparr>Revoked := True\<rparr>) col))"

definition RevokeAllForUser ::
  "env \<Rightarrow> ObjectID \<Rightarrow> RefreshToken list \<Rightarrow> error option \<times> RefreshToken list" where
  "RevokeAllForUser env userID col =
    (if tokenUpdateFails env then (Some (Errorf ''auth repo revokeAll'' ErrDriver), col)
     else (None, UpdateMany (\<lambda>d. UserID d = userID \<and> Revoked d = False)
                            (\<lambda>d. d\<lparr>Revoked := True\<rparr>) col))"

subsection \<open>Service\<close>

text \<open>
  The service holds the JWT manager and the refresh TTL; the two collections it reaches
  through its repositories are passed in and returned.
\<close>

record Service =
  jwt :: JWTManager
  refreshTTL :: duration

definition GenerateRefreshTokenString :: "env \<Rightarrow> error + string" where
  "GenerateRefreshTokenString env =
    (case randToken env of
       None \<Rightarrow> Inl (Errorf ''generate refresh token'' ErrRandRead)
     | Some b \<Rightarrow> Inr b)"

definition issueTokens ::
  "primitives \<Rightarrow> env \<Rightarrow> Service \<Rightarrow> ObjectID \<Rightarrow> rune list \<Rightarrow> RefreshToken list
    \<Rightarrow> (error + TokenResponse) \<times> RefreshToken list" where
  "issueTokens P env s userID email col =
    (let email = (if email = [] then [] else email)
     in case GenerateAccessToken (hmacSum P) (jwt s) (clock env) (Hex userID) email of
          Inl err \<Rightarrow> (Inl (Errorf ''auth issue access'' err), col)
        | Inr accessToken \<Rightarrow>
           (case GenerateRefreshTokenString env of
              Inl err \<Rightarrow> (Inl (Errorf ''auth issue refresh'' err), col)
            | Inr refreshStr \<Rightarrow>
               (let rt = \<lparr>RefreshToken.ID = 0, UserID = userID, Token = refreshStr,
                          RefreshToken.ExpiresAt = clock env + refreshTTL s,
                          Revoked = False, RefreshToken.CreatedAt = zeroTime\<rparr>
                in case CreateRefreshToken env rt col of
                     (Some err, col') \<Rightarrow> (Inl (Errorf ''auth store refresh'' err), col')
                   | (None, col') \<Rightarrow>
                       (Inr \<lparr>AccessToken = accessToken,
                             AccessTokenExpiresIn = AccessTTLSeconds (jwt s),
                             RefreshToken = refreshStr,
                             TokenType = ''Bearer''\<rparr>, col'))))"

definition Login ::
  "primitives \<Rightarrow> env \<Rightarrow> Service \<Rightarrow> rune list \<Rightarrow> string \<Rightarrow> User list \<Rightarrow> RefreshToken list
    \<Rightarrow> (error + TokenResponse) \<times> RefreshToken list" where
  "Login P env s email password users col =
    (case Authenticate P env email password users of
       Inl err \<Rightarrow> (Inl err, col)
     | Inr u \<Rightarrow> issueTokens P env s (User.ID u) (User.Email u) col)"

text \<open>
  \<^verbatim>\<open>Refresh\<close> makes its driver calls one after the other: the lookup with the two tests
  on its result, then the revocation followed by \<^verbatim>\<open>issueTokens\<close>. The two parts are
  named so that calls running at the same time can be interleaved between them.
\<close>

definition Refresh_lookup :: "env \<Rightarrow> string \<Rightarrow> RefreshToken list \<Rightarrow> error + RefreshToken" where
  "Refresh_lookup env refreshTokenStr col =
    (case FindRefreshToken env refreshTokenStr col of
       Inl err \<Rightarrow> Inl (Errorf ''auth refresh'' err)
     | Inr None \<Rightarrow> Inl ErrInvalidRefreshToken
     | Inr (Some rt) \<Rightarrow>
         if RefreshToken.ExpiresAt rt < clock env then Inl ErrInvalidRefreshToken
         else Inr rt)"

definition Refresh_rotate ::
  "primitives \<Rightarrow> env \<Rightarrow> Service \<Rightarrow> RefreshToken \<Rightarrow> RefreshToken list
    \<Rightarrow> (error + TokenResponse) \<times> RefreshToken list" where
  "Refresh_rotate P env s rt col =
    (case RevokeRefreshToken env (RefreshToken.ID rt) col of
       (Some err, col') \<Rightarrow> (Inl (Errorf ''auth refresh revoke'' err), col')
     | (None, col') \<Rightarrow> issueTokens P env s (UserID rt) [] col')"

definition Refresh ::
  "primitives \<Rightarrow> env \<Rightarrow> Service \<Rightarrow> string \<Rightarrow> RefreshToken list
    \<Rightarrow> (error + TokenResponse) \<times> RefreshToken list" where
  "Refresh P env s refreshTokenStr col =
    (case Refresh_lookup env refreshTokenStr col of
       Inl err \<Rightarrow> (Inl err, col)
     | Inr rt \<Rightarrow> Refresh_rotate P env s rt col)"

section \<open>Notions used to state the properties\<close>

text \<open>
  Encoding a token at one instant and decoding it at another, as the unit test
  \<^verbatim>\<open>TestJWTGenerateAndValidate\<close> does.
\<close>

definition generate_then_validate ::
  "hmac \<Rightarrow> JWTManager \<Rightarrow> time \<Rightarrow> time \<Rightarrow> string \<Rightarrow> rune list \<Rightarrow> error + Claims" where
  "generate_then_validate mac j now now' userID email =
    (case GenerateAccessToken mac j now userID email of
       Inl err \<Rightarrow> Inl err
     | Inr token \<Rightarrow> ValidateAccessToken mac j now' token)"

text \<open>The claims \<^verbatim>\<open>GenerateAccessToken\<close> builds.\<close>

definition accessClaims :: "JWTManager \<Rightarrow> time \<Rightarrow> string \<Rightarrow> rune list \<Rightarrow> Claims" where
  "accessClaims j now userID email =
    \<lparr>Claims.Email = email, Subject = userID,
     IssuedAt = Some (NewNumericDate now),
     NotBefore = None,
     Claims.ExpiresAt = Some (NewNumericDate (now + accessTTL j))\<rparr>"

text \<open>
  \<open>stays_revoked col col'\<close>: every document of \<open>col\<close> is still in \<open>col'\<close> at its place,
  with its identifier and its secret, and is revoked there if it was revoked before.
\<close>

definition stays_revoked :: "RefreshToken list \<Rightarrow> RefreshToken list \<Rightarrow> bool" where
  "stays_revoked col col' =
    list_all2 (\<lambda>d d'. RefreshToken.ID d' = RefreshToken.ID d \<and> Token d' = Token d
                      \<and> (Revoked d \<longrightarrow> Revoked d'))
      col (take (length col) col')"

text \<open>
  \<open>dead now token col\<close>: every document that carries the secret is revoked or has
  expired; in particular when no document carries it.
\<close>

definition dead :: "time \<Rightarrow> string \<Rightarrow> RefreshToken list \<Rightarrow> bool" where
  "dead now token col =
    list_all (\<lambda>d. Token d = token \<longrightarrow> Revoked d \<or> RefreshToken.ExpiresAt d < now) col"

text \<open>The same secret presented once per element of a list of calls, one after the other.\<close>

fun Refresh_repeat ::
  "primitives \<Rightarrow> Service \<Rightarrow> string \<Rightarrow> env list \<Rightarrow> RefreshToken list
    \<Rightarrow> (error + TokenResponse) list \<times> RefreshToken list" where
  "Refresh_repeat P s token [] col = ([], col)"
| "Refresh_repeat P s token (env # envs) col =
    (case Refresh P env s token col of
       (res, col') \<Rightarrow>
         (case Refresh_repeat P s token envs col' of
            (rs, col'') \<Rightarrow> (res # rs, col'')))"

section \<open>Concrete values for the examples\<close>

text \<open>
  A keyed function, a password check and a case table that compute, so that the
  examples below can be evaluated. The general statements do not depend on them.
\<close>

definition exampleMac :: hmac where
  "exampleMac h key m =
    (case h of SHA256 \<Rightarrow> ''hs256:'' | SHA384 \<Rightarrow> ''hs384:'' | SHA512 \<Rightarrow> ''hs512:'')
      @ key @ '':'' @ Subject (snd m)"

definition exampleJWT :: JWTManager where
  "exampleJWT = NewJWTManager ''test-secret-key-12345'' (900 * second)"

definition examplePrimitives :: primitives where
  "examplePrimitives =
    \<lparr>hmacSum = exampleMac,
     CompareHashAndPassword = (\<lambda>hash password. hash = ''bcrypt:'' @ password),
     caseTable = (\<lambda>r. r)\<rparr>"

definition exampleService :: Service where
  "exampleService = \<lparr>jwt = exampleJWT, refreshTTL = 2592000 * second\<rparr>"

definition exampleEnv :: "time \<Rightarrow> ObjectID \<Rightarrow> string \<Rightarrow> env" where
  "exampleEnv t oid tok =
    \<lparr>clock = t, newObjectID = oid, randToken = Some tok,
     bcryptHash = Some ''bcrypt:securePass1'',
     userFindFails = False, userInsertFails = False, tokenFindFails = False,
     tokenUpdateFails = False, tokenInsertFails = False\<rparr>"

text \<open>One user, \<^verbatim>\<open>jane@x.io\<close>, and the code points of \<^verbatim>\<open>" Jane@X.io "\<close> and \<^verbatim>\<open>bob@x.io\<close>.\<close>

definition janeEmail :: "rune list" where
  "janeEmail = [106, 97, 110, 101, 64, 120, 46, 105, 111]"

definition janeEmailTyped :: "rune list" where
  "janeEmailTyped = [32, 74, 97, 110, 101, 64, 88, 46, 105, 111, 32]"

definition bobEmail :: "rune list" where
  "bobEmail = [98, 111, 98, 64, 120, 46, 105, 111]"

definition exampleUser :: User where
  "exampleUser =
    \<lparr>User.ID = 1, User.Name = [74, 97, 110, 101], User.Email = janeEmail,
     PasswordHash = ''bcrypt:securePass1'', Role = ''user'',
     User.CreatedAt = 1699990000000000000, User.UpdatedAt = 1699990000000000000\<rparr>"

definition exampleRecord :: RefreshToken where
  "exampleRecord =
    \<lparr>RefreshToken.ID = 10, UserID = 1, Token = ''secretA'',
     RefreshToken.ExpiresAt = 1702592000000000000, Revoked = False,
     RefreshToken.CreatedAt = 1700000000000000000\<rparr>"

definition exampleClaims :: Claims where
  "exampleClaims =
    \<lparr>Claims.Email = janeEmail, Subject = ''user123'', IssuedAt = Some 1700000000,
     NotBefore = None, Claims.ExpiresAt = Some 1700000900\<rparr>"

definition exampleClaimsNoExp :: Claims where
  "exampleClaimsNoExp =
    \<lparr>Claims.Email = janeEmail, Subject = ''user123'', IssuedAt = Some 1700000000,
     NotBefore = None, Claims.ExpiresAt = None\<rparr>"

text \<open>A login of the user, and a refresh of \<open>exampleRecord\<close>'s secret.\<close>

definition exampleLogin :: "(error + TokenResponse) \<times> RefreshToken list" where
  "exampleLogin =
    Login examplePrimitives (exampleEnv 1700000000000000000 10 ''secretA'') exampleService
      janeEmailTyped ''securePass1'' [exampleUser] []"

definition exampleRotation :: "(error + TokenResponse) \<times> RefreshToken list" where
  "exampleRotation =
    Refresh examplePrimitives (exampleEnv 1700000100000000000 11 ''secretB'') exampleService
      ''secretA'' [exampleRecord]"

section \<open>Evaluation and auxiliary facts\<close>

lemmas example_defs =
  exampleMac_def exampleJWT_def examplePrimitives_def exampleService_def exampleEnv_def
  exampleUser_def exampleRecord_def exampleClaims_def exampleClaimsNoExp_def
  janeEmail_def janeEmailTyped_def bobEmail_def exampleLogin_def exampleRotation_def
  NewJWTManager_def second_def millisecond_def

lemmas jwt_defs =
  ValidateAccessToken_def ParseWithClaims_def ParseUnverified_def keyFunc_def Verify_def
  Validate_def verifyExpiresAt_def verifyNotBefore_def GetSigningMethod_def
  signingMethods_def numericDateTime_def NewNumericDate_def GenerateAccessToken_def
  SignedString_def SigningMethodHS256_def generate_then_validate_def

lemmas service_defs =
  Login_def Authenticate_def FindByEmail_def ToLower_def TrimSpace_def
  unicode_IsSpace_def unicode_ToLower_def issueTokens_def GenerateAccessToken_def
  SignedString_def SigningMethodHS256_def GenerateRefreshTokenString_def
  CreateRefreshToken_def duplicateKey_def bsonDateTime_def Refresh_def Refresh_lookup_def
  Refresh_rotate_def FindRefreshToken_def RevokeRefreshToken_def RevokeAllForUser_def
  UpdateMany_def AccessTTLSeconds_def NewNumericDate_def zeroTime_def

subsection \<open>Tokens\<close>

lemma GenerateAccessToken_eq:
  "GenerateAccessToken mac j now userID email =
     Inr (Compact (Some ''HS256'') (accessClaims j now userID email)
            (Some (mac SHA256 (secret j) (Some ''HS256'', accessClaims j now userID email))))"
  by (simp add: GenerateAccessToken_def SignedString_def SigningMethodHS256_def Let_def
      accessClaims_def)

lemma ValidateAccessToken_HS256:
  "ValidateAccessToken mac j now
     (Compact (Some ''HS256'') c (Some (mac SHA256 (secret j) (Some ''HS256'', c))))
   = (case Validate now c of
        [] \<Rightarrow> Inr c
      | errs \<Rightarrow> Inl (Errorf ''invalid token'' (ErrTokenInvalidClaims errs)))"
  by (simp add: ValidateAccessToken_def ParseWithClaims_def ParseUnverified_def keyFunc_def
      Verify_def GetSigningMethod_def signingMethods_def split: list.splits)

text \<open>
  The key function lets every HMAC method pass, and the signature is then checked with
  the hash the header names: a token signed with HS384 (or HS512) under the configured
  secret goes on to the claims validation like an HS256 one.
\<close>

lemma ValidateAccessToken_HS384:
  "ValidateAccessToken mac j now
     (Compact (Some ''HS384'') c (Some (mac SHA384 (secret j) (Some ''HS384'', c))))
   = (case Validate now c of
        [] \<Rightarrow> Inr c
      | errs \<Rightarrow> Inl (Errorf ''invalid token'' (ErrTokenInvalidClaims errs)))"
  by (simp add: ValidateAccessToken_def ParseWithClaims_def ParseUnverified_def keyFunc_def
      Verify_def GetSigningMethod_def signingMethods_def split: list.splits)

text \<open>Every header outside the three HMAC names is refused before any key is used.\<close>

lemma ValidateAccessToken_rejects_non_HMAC:
  assumes "alg \<noteq> Some ''HS256''" "alg \<noteq> Some ''HS384''" "alg \<noteq> Some ''HS512''"
  shows "ValidateAccessToken mac j now (Compact alg c sg)
           = Inl (Errorf ''invalid token'' ErrTokenUnverifiable)"
  using assms
  by (cases alg)
     (auto simp add: ValidateAccessToken_def ParseWithClaims_def ParseUnverified_def
        keyFunc_def Verify_def GetSigningMethod_def signingMethods_def split: option.splits)

lemma Validate_accessClaims:
  "Validate now' (accessClaims j now uid email) =
     (if now' < ((now + accessTTL j) div second) * second then [] else [ErrTokenExpired])"
  by (simp add: Validate_def verifyExpiresAt_def verifyNotBefore_def accessClaims_def
      numericDateTime_def NewNumericDate_def)

lemma floor_second_le: "(t div second) * second \<le> t"
  by (simp add: second_def)


lemma ValidateAccessToken_Inr_exp:
  assumes "ValidateAccessToken mac j now tok = Inr c" and "Claims.ExpiresAt c = Some e"
  shows "now < numericDateTime e"
  using assms
  by (auto simp add: ValidateAccessToken_def ParseWithClaims_def ParseUnverified_def
        Validate_def verifyExpiresAt_def
      split: sum.splits prod.splits token_string.splits option.splits if_splits
        list.splits)

lemma generate_nonpositive_ttl_expired:
  assumes "accessTTL j \<le> 0" and "now \<le> now'"
  shows "generate_then_validate mac j now now' uid email
           = Inl (Errorf ''invalid token'' (ErrTokenInvalidClaims [ErrTokenExpired]))"
proof -
  have "\<not> now' < ((now + accessTTL j) div second) * second"
    using floor_second_le[of "now + accessTTL j"] assms by linarith
  then show ?thesis
    by (simp add: generate_then_validate_def GenerateAccessToken_eq
        ValidateAccessToken_HS256 Validate_accessClaims)
qed

section \<open>Access tokens: the claims\<close>

text \<open>
  Claim C3. Every token whose header declares an algorithm other than HS256 is to be
  rejected, also when it is well signed under the declared algorithm with the
  configured secret. The comment in \<^verbatim>\<open>ValidateAccessToken\<close> says the same (only HS256 is
  accepted), but the test it makes is on the type \<^verbatim>\<open>*jwt.SigningMethodHMAC\<close>, which
  HS384 and HS512 share: the token below declares HS384, carries the HS384 keyed hash
  under the configured secret, and is accepted with its claims.
\<close>

theorem ValidateAccessToken_accepts_HS384:
  "ValidateAccessToken exampleMac exampleJWT 1700000000000000000
     (Compact (Some ''HS384'') exampleClaims
        (Some (exampleMac SHA384 ''test-secret-key-12345'' (Some ''HS384'', exampleClaims))))
   = Inr exampleClaims"
  by (simp add: jwt_defs example_defs)

text \<open>
  A token that is signed with the configured secret and carries no \<^verbatim>\<open>exp\<close> claim is
  accepted: the validator checks \<^verbatim>\<open>exp\<close> only when it is there.
\<close>

theorem ValidateAccessToken_no_exp_accepted:
  "ValidateAccessToken exampleMac exampleJWT 1700000000000000000
     (Compact (Some ''HS256'') exampleClaimsNoExp
        (Some (exampleMac SHA256 ''test-secret-key-12345''
                 (Some ''HS256'', exampleClaimsNoExp))))
   = Inr exampleClaimsNoExp
   \<and> Claims.ExpiresAt exampleClaimsNoExp = None"
  by (simp add: jwt_defs example_defs)

text \<open>
  Claim C6, as amended. A token that is accepted and carries an expiry claim has that
  claim strictly after the current time, with no leeway; and a token generated with a
  TTL that is negative (or zero) is refused as expired at the instant it was generated
  and at every later one.
\<close>

theorem ValidateAccessToken_expiry:
  "(ValidateAccessToken mac j now tok = Inr c \<and> Claims.ExpiresAt c = Some e
      \<longrightarrow> now < numericDateTime e)
   \<and> (accessTTL j \<le> 0 \<and> now \<le> now'
      \<longrightarrow> generate_then_validate mac j now now' uid email
            = Inl (Errorf ''invalid token'' (ErrTokenInvalidClaims [ErrTokenExpired])))"
  using ValidateAccessToken_Inr_exp generate_nonpositive_ttl_expired
  by blast

theorem ValidateAccessToken_expiry_witness:
  "ValidateAccessToken exampleMac exampleJWT 1700000000000000000
     (Compact (Some ''HS256'') exampleClaims
        (Some (exampleMac SHA256 ''test-secret-key-12345'' (Some ''HS256'', exampleClaims))))
     = Inr exampleClaims
   \<and> Claims.ExpiresAt exampleClaims = Some 1700000900
   \<and> (1700000000000000000 :: int) < numericDateTime 1700000900
   \<and> accessTTL (NewJWTManager ''test-secret'' (- second)) \<le> 0
   \<and> (1700000000000000000 :: int) \<le> 1700000000000000000
   \<and> generate_then_validate exampleMac (NewJWTManager ''test-secret'' (- second))
        1700000000000000000 1700000000000000000 ''user123'' janeEmail
      = Inl (Errorf ''invalid token'' (ErrTokenInvalidClaims [ErrTokenExpired]))"
  using ValidateAccessToken_expiry
          [where mac = exampleMac and j = exampleJWT and now = 1700000000000000000
             and tok = "Compact (Some ''HS256'') exampleClaims
                          (Some (exampleMac SHA256 ''test-secret-key-12345''
                                   (Some ''HS256'', exampleClaims)))"
             and c = exampleClaims and e = 1700000900]
        ValidateAccessToken_expiry
          [where mac = exampleMac and j = "NewJWTManager ''test-secret'' (- second)"
             and now = 1700000000000000000 and now' = 1700000000000000000
             and uid = "''user123''" and email = janeEmail]
  by (simp add: jwt_defs example_defs)




section \<open>Facts about the collection and the service\<close>

subsection \<open>Trimming and lower-casing\<close>

lemma trim_ends:
  fixes P :: "'a \<Rightarrow> bool"
  defines "t \<equiv> \<lambda>s. rev (dropWhile P (rev (dropWhile P s)))"
  shows "t s = [] \<or> (\<not> P (hd (t s)) \<and> \<not> P (last (t s)))"
proof (cases "t s = []")
  case True
  then show ?thesis by simp
next
  case False
  let ?a = "dropWhile P s"
  let ?b = "dropWhile P (rev ?a)"
  have b: "?b \<noteq> []"
    using False by (simp add: t_def)
  then have hb: "\<not> P (hd ?b)"
    by (rule hd_dropWhile)
  from b obtain x where x: "x \<in> set (rev ?a)" "\<not> P x"
    by auto
  then have lb: "last ?b = last (rev ?a)"
    by (rule dropWhile_last)
  from x(1) have a: "?a \<noteq> []"
    by (auto simp del: dropWhile_eq_Nil_conv)
  then have "\<not> P (hd ?a)"
    by (rule hd_dropWhile)
  moreover have "last (rev ?a) = hd ?a"
    using a by (simp add: last_rev)
  ultimately have "\<not> P (last ?b)"
    using lb by simp
  moreover have "hd (t s) = last ?b"
    using b by (simp add: t_def hd_rev)
  moreover have "last (t s) = hd ?b"
    using b by (simp add: t_def last_rev)
  ultimately show ?thesis
    using hb by simp
qed

lemma trim_fix:
  assumes "s = [] \<or> (\<not> P (hd s) \<and> \<not> P (last s))"
  shows "rev (dropWhile P (rev (dropWhile P s))) = s"
proof (cases "s = []")
  case True
  then show ?thesis by simp
next
  case False
  with assms have h: "\<not> P (hd s)" and l: "\<not> P (last s)"
    by auto
  have "dropWhile P s = s"
    using h False by (simp add: dropWhile_eq_self_iff)
  moreover have "dropWhile P (rev s) = rev s"
    using l False by (simp add: dropWhile_eq_self_iff hd_rev)
  ultimately show ?thesis
    by simp
qed

lemma TrimSpace_ends:
  "TrimSpace s = []
   \<or> (\<not> unicode_IsSpace (hd (TrimSpace s)) \<and> \<not> unicode_IsSpace (last (TrimSpace s)))"
  unfolding TrimSpace_def by (rule trim_ends)

lemma normalise_idem:
  assumes idem: "\<And>r. unicode_ToLower tab (unicode_ToLower tab r) = unicode_ToLower tab r"
      and sp: "\<And>r. unicode_IsSpace (unicode_ToLower tab r) = unicode_IsSpace r"
  shows "ToLower tab (TrimSpace (ToLower tab (TrimSpace s))) = ToLower tab (TrimSpace s)"
proof -
  let ?t = "TrimSpace s"
  let ?x = "ToLower tab ?t"
  have "?x = [] \<or> (\<not> unicode_IsSpace (hd ?x) \<and> \<not> unicode_IsSpace (last ?x))"
    using TrimSpace_ends[of s]
    by (cases "?t = []") (auto simp: ToLower_def hd_map last_map sp)
  then have "TrimSpace ?x = ?x"
    unfolding TrimSpace_def by (rule trim_fix)
  moreover have "ToLower tab ?x = ?x"
    by (simp add: ToLower_def idem)
  ultimately show ?thesis
    by simp
qed

subsection \<open>Updates of the collection\<close>

lemma length_UpdateOne [simp]: "length (UpdateOne p f ds) = length ds"
  by (induction ds) auto

lemma nth_UpdateOne:
  "i < length ds \<Longrightarrow> UpdateOne p f ds ! i = ds ! i \<or> UpdateOne p f ds ! i = f (ds ! i)"
proof (induction ds arbitrary: i)
  case Nil
  then show ?case by simp
next
  case (Cons d ds)
  then show ?case by (cases i) auto
qed


lemma stays_revoked_iff:
  "stays_revoked col col' \<longleftrightarrow>
     length col \<le> length col' \<and>
     (\<forall>i<length col. RefreshToken.ID (col' ! i) = RefreshToken.ID (col ! i)
           \<and> Token (col' ! i) = Token (col ! i)
           \<and> (Revoked (col ! i) \<longrightarrow> Revoked (col' ! i)))"
  by (auto simp: stays_revoked_def list_all2_conv_all_nth)

lemma stays_revoked_refl: "stays_revoked col col"
  by (simp add: stays_revoked_iff)

lemma stays_revoked_trans:
  "stays_revoked a b \<Longrightarrow> stays_revoked b c \<Longrightarrow> stays_revoked a c"
  by (fastforce simp: stays_revoked_iff)

lemma stays_revoked_append: "stays_revoked col (col @ ds)"
  by (simp add: stays_revoked_iff nth_append)

lemma stays_revoked_UpdateOne:
  "stays_revoked col (UpdateOne p (\<lambda>d. d\<lparr>Revoked := True\<rparr>) col)"
proof -
  have "RefreshToken.ID (UpdateOne p (\<lambda>d. d\<lparr>Revoked := True\<rparr>) col ! i)
          = RefreshToken.ID (col ! i)
        \<and> Token (UpdateOne p (\<lambda>d. d\<lparr>Revoked := True\<rparr>) col ! i) = Token (col ! i)
        \<and> (Revoked (col ! i) \<longrightarrow> Revoked (UpdateOne p (\<lambda>d. d\<lparr>Revoked := True\<rparr>) col ! i))"
    if "i < length col" for i
    using nth_UpdateOne[OF that, of p "\<lambda>d. d\<lparr>Revoked := True\<rparr>"] by auto
  then show ?thesis
    by (simp add: stays_revoked_iff)
qed

lemma stays_revoked_UpdateMany:
  "stays_revoked col (UpdateMany p (\<lambda>d. d\<lparr>Revoked := True\<rparr>) col)"
  by (simp add: stays_revoked_iff UpdateMany_def)

subsection \<open>The repository and the service, step by step\<close>

lemma issueTokens_cases:
  "issueTokens P env s uid email col = (res, col') \<Longrightarrow>
     (\<exists>e. res = Inl e \<and> col' = col) \<or>
     (\<exists>tok d. randToken env = Some tok
        \<and> res = Inr \<lparr>AccessToken =
                        Compact (Some ''HS256'')
                          (accessClaims (jwt s) (clock env) (Hex uid) email)
                          (Some (hmacSum P SHA256 (secret (jwt s))
                                   (Some ''HS256'',
                                    accessClaims (jwt s) (clock env) (Hex uid) email))),
                      AccessTokenExpiresIn = AccessTTLSeconds (jwt s),
                      RefreshToken = tok, TokenType = ''Bearer''\<rparr>
        \<and> col' = col @ [d] \<and> Token d = tok \<and> UserID d = uid \<and> \<not> Revoked d
        \<and> RefreshToken.ID d = newObjectID env)"
  by (auto simp: issueTokens_def GenerateAccessToken_eq GenerateRefreshTokenString_def
        CreateRefreshToken_def Let_def split: option.splits if_splits)

lemma stays_revoked_CreateRefreshToken:
  "stays_revoked col (snd (CreateRefreshToken env rt col))"
  by (simp add: CreateRefreshToken_def Let_def stays_revoked_refl stays_revoked_append)

lemma stays_revoked_RevokeRefreshToken:
  "stays_revoked col (snd (RevokeRefreshToken env i col))"
  by (simp add: RevokeRefreshToken_def stays_revoked_refl stays_revoked_UpdateOne)

lemma stays_revoked_RevokeAllForUser:
  "stays_revoked col (snd (RevokeAllForUser env u col))"
  by (simp add: RevokeAllForUser_def stays_revoked_refl stays_revoked_UpdateMany)

lemma stays_revoked_issueTokens:
  "stays_revoked col (snd (issueTokens P env s uid email col))"
  using issueTokens_cases[of P env s uid email col
          "fst (issueTokens P env s uid email col)"
          "snd (issueTokens P env s uid email col)"]
  by (auto simp: stays_revoked_refl stays_revoked_append)

lemma stays_revoked_Login:
  "stays_revoked col (snd (Login P env s email pw users col))"
  by (simp add: Login_def stays_revoked_refl stays_revoked_issueTokens split: sum.splits)

lemma stays_revoked_Refresh:
  "stays_revoked col (snd (Refresh P env s tok col))"
proof -
  have "stays_revoked col (snd (Refresh_rotate P env s rt col))" for rt
  proof (cases "tokenUpdateFails env")
    case True
    then show ?thesis
      by (simp add: Refresh_rotate_def RevokeRefreshToken_def stays_revoked_refl)
  next
    case False
    then show ?thesis
      using stays_revoked_trans[OF stays_revoked_UpdateOne stays_revoked_issueTokens]
      by (simp add: Refresh_rotate_def RevokeRefreshToken_def)
  qed
  then show ?thesis
    by (simp add: Refresh_def stays_revoked_refl split: sum.splits)
qed

lemma Refresh_lookup_Inr:
  "Refresh_lookup env tok col = Inr rt \<Longrightarrow>
     \<not> tokenFindFails env
     \<and> find (\<lambda>d. Token d = tok \<and> Revoked d = False) col = Some rt
     \<and> rt \<in> set col \<and> Token rt = tok \<and> \<not> Revoked rt
     \<and> clock env \<le> RefreshToken.ExpiresAt rt"
  by (auto simp: Refresh_lookup_def FindRefreshToken_def find_Some_iff
           split: if_splits option.splits)

lemma Refresh_Inr:
  "Refresh P env s tok col = (Inr r, col') \<Longrightarrow>
     \<exists>rt. Refresh_lookup env tok col = Inr rt
         \<and> Refresh_rotate P env s rt col = (Inr r, col')"
  by (auto simp: Refresh_def split: sum.splits)

lemma Refresh_rotate_Inr:
  "Refresh_rotate P env s rt col = (Inr r, col') \<Longrightarrow>
     \<not> tokenUpdateFails env \<and>
     issueTokens P env s (UserID rt) []
       (UpdateOne (\<lambda>d. RefreshToken.ID d = RefreshToken.ID rt)
          (\<lambda>d. d\<lparr>Revoked := True\<rparr>) col) = (Inr r, col')"
  by (auto simp: Refresh_rotate_def RevokeRefreshToken_def split: if_splits)

text \<open>
  A secret that is dead is refused, and the collection is left as it was, whether
  or not the lookup itself fails.
\<close>

lemma Refresh_dead:
  assumes "dead (clock env) tok col"
  shows "Refresh P env s tok col =
           (if tokenFindFails env
            then (Inl (Errorf ''auth refresh'' (Errorf ''auth repo find'' ErrDriver)), col)
            else (Inl ErrInvalidRefreshToken, col))"
proof (cases "tokenFindFails env")
  case True
  then show ?thesis
    by (simp add: Refresh_def Refresh_lookup_def FindRefreshToken_def)
next
  case False
  have "Refresh_lookup env tok col = Inl ErrInvalidRefreshToken"
  proof (cases "find (\<lambda>d. Token d = tok \<and> Revoked d = False) col")
    case None
    with False show ?thesis
      by (simp add: Refresh_lookup_def FindRefreshToken_def)
  next
    case (Some rt)
    then have "rt \<in> set col" "Token rt = tok" "\<not> Revoked rt"
      by (auto simp: find_Some_iff)
    with assms have "RefreshToken.ExpiresAt rt < clock env"
      by (auto simp: dead_def list_all_iff)
    with False Some show ?thesis
      by (simp add: Refresh_lookup_def FindRefreshToken_def)
  qed
  with False show ?thesis
    by (simp add: Refresh_def)
qed


text \<open>
  Deleting documents, as the TTL index on \<^verbatim>\<open>expires_at\<close> lets the server do for expired
  ones, keeps a dead secret dead.
\<close>

lemma dead_filter: "dead now tok col \<Longrightarrow> dead now tok (filter p col)"
  by (simp add: dead_def list_all_iff)

lemma Refresh_repeat_dead:
  "dead start tok col \<Longrightarrow> list_all (\<lambda>e. start \<le> clock e) envs \<Longrightarrow>
     list_all isl (fst (Refresh_repeat P s tok envs col))
     \<and> length (fst (Refresh_repeat P s tok envs col)) = length envs
     \<and> snd (Refresh_repeat P s tok envs col) = col"
proof (induction envs)
  case Nil
  then show ?case by simp
next
  case (Cons env envs)
  from Cons.prems have "dead (clock env) tok col"
    by (auto simp: dead_def list_all_iff)
  from Refresh_dead[OF this, of P s] obtain e
    where R: "Refresh P env s tok col = (Inl e, col)"
    by (auto split: if_splits)
  from Cons have IH: "list_all isl (fst (Refresh_repeat P s tok envs col))
     \<and> length (fst (Refresh_repeat P s tok envs col)) = length envs
     \<and> snd (Refresh_repeat P s tok envs col) = col"
    by simp
  show ?case
  proof (cases "Refresh_repeat P s tok envs col")
    case (Pair rs c)
    with IH R show ?thesis by simp
  qed
qed

section \<open>Login and refresh: the claims\<close>

text \<open>
  Claim C1. Of the calls to \<^verbatim>\<open>Refresh\<close> that present the secret of one active record at
  the same time, exactly one is to succeed; finding and invalidating the record is to
  be one atomic conditional write. The README promises as much (each use invalidates
  the old token, preventing replay). \<^verbatim>\<open>Refresh\<close> however reads with \<^verbatim>\<open>FindRefreshToken\<close>
  and writes with \<^verbatim>\<open>RevokeRefreshToken\<close> in two driver calls. In the schedule below two
  calls present \<^verbatim>\<open>secretA\<close>; both look the record up before either revokes it, both
  lookups return the record, both calls go on to return a token pair, and the
  collection ends with two active secrets that came from the one presented.
\<close>

theorem Refresh_interleaved_both_succeed:
  "Refresh_lookup (exampleEnv 1700000100000000000 11 ''secretB'') ''secretA'' [exampleRecord]
     = Inr exampleRecord
   \<and> Refresh_lookup (exampleEnv 1700000100000000000 12 ''secretC'') ''secretA'' [exampleRecord]
     = Inr exampleRecord
   \<and> \<not> isl (fst (Refresh_rotate examplePrimitives
                   (exampleEnv 1700000100000000000 11 ''secretB'') exampleService
                   exampleRecord [exampleRecord]))
   \<and> \<not> isl (fst (Refresh_rotate examplePrimitives
                   (exampleEnv 1700000100000000000 12 ''secretC'') exampleService
                   exampleRecord
                   (snd (Refresh_rotate examplePrimitives
                           (exampleEnv 1700000100000000000 11 ''secretB'') exampleService
                           exampleRecord [exampleRecord]))))
   \<and> map Token
        (filter (\<lambda>d. Revoked d = False)
           (snd (Refresh_rotate examplePrimitives
                   (exampleEnv 1700000100000000000 12 ''secretC'') exampleService
                   exampleRecord
                   (snd (Refresh_rotate examplePrimitives
                           (exampleEnv 1700000100000000000 11 ''secretB'') exampleService
                           exampleRecord [exampleRecord])))))
      = [''secretB'', ''secretC'']"
  by (simp add: service_defs example_defs)



text \<open>
  Claim C4. A consumed record is terminal. No operation of the repository or of the
  service turns a revoked flag back: each keeps every document in place and revoked
  if it was. A refresh that succeeds has found a record with the presented secret
  that is not revoked and has not expired. And once every record with a secret is
  revoked or expired, presenting the secret any number of times at later instants
  fails each time and changes nothing.
\<close>

theorem revoked_is_terminal:
  "stays_revoked col (snd (CreateRefreshToken env rt col))
   \<and> stays_revoked col (snd (RevokeRefreshToken env oid col))
   \<and> stays_revoked col (snd (RevokeAllForUser env uid col))
   \<and> stays_revoked col (snd (Login P env s email password users col))
   \<and> stays_revoked col (snd (Refresh P env s tok col))
   \<and> (Refresh P env s tok col = (Inr r, col')
        \<longrightarrow> (\<exists>d. d \<in> set col \<and> Token d = tok \<and> \<not> Revoked d
                  \<and> clock env \<le> RefreshToken.ExpiresAt d))
   \<and> (dead start tok col \<and> list_all (\<lambda>e. start \<le> clock e) envs
        \<longrightarrow> list_all isl (fst (Refresh_repeat P s tok envs col))
            \<and> length (fst (Refresh_repeat P s tok envs col)) = length envs
            \<and> snd (Refresh_repeat P s tok envs col) = col)"
proof (intro conjI impI)
  show "stays_revoked col (snd (CreateRefreshToken env rt col))"
    by (rule stays_revoked_CreateRefreshToken)
  show "stays_revoked col (snd (RevokeRefreshToken env oid col))"
    by (rule stays_revoked_RevokeRefreshToken)
  show "stays_revoked col (snd (RevokeAllForUser env uid col))"
    by (rule stays_revoked_RevokeAllForUser)
  show "stays_revoked col (snd (Login P env s email password users col))"
    by (rule stays_revoked_Login)
  show "stays_revoked col (snd (Refresh P env s tok col))"
    by (rule stays_revoked_Refresh)
next
  assume "Refresh P env s tok col = (Inr r, col')"
  from Refresh_Inr[OF this] obtain d where "Refresh_lookup env tok col = Inr d"
    by blast
  from Refresh_lookup_Inr[OF this]
  show "\<exists>d. d \<in> set col \<and> Token d = tok \<and> \<not> Revoked d
            \<and> clock env \<le> RefreshToken.ExpiresAt d"
    by blast
next
  assume h: "dead start tok col \<and> list_all (\<lambda>e. start \<le> clock e) envs"
  then have "list_all isl (fst (Refresh_repeat P s tok envs col))
     \<and> length (fst (Refresh_repeat P s tok envs col)) = length envs
     \<and> snd (Refresh_repeat P s tok envs col) = col"
    using Refresh_repeat_dead[of start tok col envs P s] by simp
  then show "list_all isl (fst (Refresh_repeat P s tok envs col))"
    and "length (fst (Refresh_repeat P s tok envs col)) = length envs"
    and "snd (Refresh_repeat P s tok envs col) = col"
    by simp_all
qed

theorem revoked_is_terminal_witness:
  "stays_revoked [exampleRecord\<lparr>Revoked := True\<rparr>]
     (snd (CreateRefreshToken (exampleEnv 1700000200000000000 12 ''secretC'') exampleRecord
             [exampleRecord\<lparr>Revoked := True\<rparr>]))
   \<and> stays_revoked [exampleRecord\<lparr>Revoked := True\<rparr>]
       (snd (RevokeRefreshToken (exampleEnv 1700000200000000000 12 ''secretC'') 10
               [exampleRecord\<lparr>Revoked := True\<rparr>]))
   \<and> stays_revoked [exampleRecord\<lparr>Revoked := True\<rparr>]
       (snd (RevokeAllForUser (exampleEnv 1700000200000000000 12 ''secretC'') 1
               [exampleRecord\<lparr>Revoked := True\<rparr>]))
   \<and> stays_revoked [exampleRecord] (snd exampleRotation)
   \<and> exampleRotation = (Inr (projr (fst exampleRotation)), snd exampleRotation)
   \<and> exampleRecord \<in> set [exampleRecord] \<and> Token exampleRecord = ''secretA''
   \<and> \<not> Revoked exampleRecord
   \<and> clock (exampleEnv 1700000100000000000 11 ''secretB'')
        \<le> RefreshToken.ExpiresAt exampleRecord
   \<and> dead 1700000200000000000 ''secretA'' (snd exampleRotation)
   \<and> list_all (\<lambda>e. 1700000200000000000 \<le> clock e)
        [exampleEnv 1700000200000000000 12 ''secretC'',
         exampleEnv 1700000300000000000 13 ''secretD'']
   \<and> list_all isl
        (fst (Refresh_repeat examplePrimitives exampleService ''secretA''
                [exampleEnv 1700000200000000000 12 ''secretC'',
                 exampleEnv 1700000300000000000 13 ''secretD''] (snd exampleRotation)))
   \<and> snd (Refresh_repeat examplePrimitives exampleService ''secretA''
             [exampleEnv 1700000200000000000 12 ''secretC'',
              exampleEnv 1700000300000000000 13 ''secretD''] (snd exampleRotation))
      = snd exampleRotation"
  using revoked_is_terminal
          [where col = "[exampleRecord\<lparr>Revoked := True\<rparr>]"
             and env = "exampleEnv 1700000200000000000 12 ''secretC''"
             and rt = exampleRecord and oid = 10 and uid = 1]
        revoked_is_terminal
          [where col = "[exampleRecord]" and tok = "''secretA''"
             and env = "exampleEnv 1700000100000000000 11 ''secretB''"
             and P = examplePrimitives and s = exampleService
             and r = "projr (fst exampleRotation)" and col' = "snd exampleRotation"]
        revoked_is_terminal
          [where col = "snd exampleRotation" and tok = "''secretA''"
             and start = 1700000200000000000 and P = examplePrimitives and s = exampleService
             and envs = "[exampleEnv 1700000200000000000 12 ''secretC'',
                          exampleEnv 1700000300000000000 13 ''secretD'']"]
  by (simp add: service_defs example_defs dead_def stays_revoked_def)

text \<open>
  Claim C5. When the user lookup does not fail in the driver, a login for an email
  that no user has and a login with a password that the stored hash does not match
  fail alike: the result is \<open>ErrInvalidCredentials\<close> in both cases, nothing else is
  returned, and the collection of refresh tokens is left as it is.
\<close>

theorem Login_invalid_credentials:
  assumes "\<not> userFindFails env"
      and "find (\<lambda>d. User.Email d = ToLower (caseTable P) (TrimSpace email)) users = None
           \<or> (\<exists>u. find (\<lambda>d. User.Email d = ToLower (caseTable P) (TrimSpace email)) users
                     = Some u
                  \<and> \<not> CompareHashAndPassword P (PasswordHash u) password)"
  shows "Login P env s email password users col = (Inl ErrInvalidCredentials, col)"
  using assms by (auto simp: Login_def Authenticate_def FindByEmail_def)

theorem Login_invalid_credentials_witness:
  "\<not> userFindFails (exampleEnv 1700000000000000000 10 ''secretA'')
   \<and> find (\<lambda>d. User.Email d = ToLower (caseTable examplePrimitives) (TrimSpace bobEmail))
        [exampleUser] = None
   \<and> Login examplePrimitives (exampleEnv 1700000000000000000 10 ''secretA'') exampleService
        bobEmail ''securePass1'' [exampleUser] [exampleRecord]
      = (Inl ErrInvalidCredentials, [exampleRecord])
   \<and> find (\<lambda>d. User.Email d = ToLower (caseTable examplePrimitives) (TrimSpace janeEmail))
        [exampleUser] = Some exampleUser
   \<and> \<not> CompareHashAndPassword examplePrimitives (PasswordHash exampleUser) ''wrongPass1''
   \<and> Login examplePrimitives (exampleEnv 1700000000000000000 10 ''secretA'') exampleService
        janeEmail ''wrongPass1'' [exampleUser] [exampleRecord]
      = (Inl ErrInvalidCredentials, [exampleRecord])"
  using Login_invalid_credentials
          [where env = "exampleEnv 1700000000000000000 10 ''secretA''"
             and P = examplePrimitives and email = bobEmail and users = "[exampleUser]"
             and password = "''securePass1''" and s = exampleService
             and col = "[exampleRecord]"]
        Login_invalid_credentials
          [where env = "exampleEnv 1700000000000000000 10 ''secretA''"
             and P = examplePrimitives and email = janeEmail and users = "[exampleUser]"
             and password = "''wrongPass1''" and s = exampleService
             and col = "[exampleRecord]"]
  by (simp add: service_defs example_defs)

text \<open>
  The login of the example succeeds and the token type of its pair is not the
  lower-case word: \<^verbatim>\<open>issueTokens\<close> writes \<^verbatim>\<open>"Bearer"\<close>, as the README and the end-to-end
  test have it.
\<close>

theorem TokenType_not_lowercase:
  "\<not> isl (fst exampleLogin) \<and> TokenType (projr (fst exampleLogin)) \<noteq> ''bearer''"
  by (simp add: service_defs example_defs)

text \<open>
  Claim C8, as amended. Every token pair returned by a successful login or refresh
  has its token type equal to the exact string \<^verbatim>\<open>Bearer\<close>.
\<close>

theorem TokenType_Bearer:
  "(Login P env s email password users col = (Inr r, col') \<longrightarrow> TokenType r = ''Bearer'')
   \<and> (Refresh P env s tok col = (Inr r, col') \<longrightarrow> TokenType r = ''Bearer'')"
proof -
  have "TokenType r = ''Bearer''"
    if "issueTokens P env s uid em c = (Inr r, col')" for uid em c
    using issueTokens_cases[OF that] by auto
  then show ?thesis
    by (auto simp: Login_def split: sum.splits dest!: Refresh_Inr Refresh_rotate_Inr)
qed

theorem TokenType_Bearer_witness:
  "exampleLogin = (Inr (projr (fst exampleLogin)), snd exampleLogin)
   \<and> TokenType (projr (fst exampleLogin)) = ''Bearer''
   \<and> exampleRotation = (Inr (projr (fst exampleRotation)), snd exampleRotation)
   \<and> TokenType (projr (fst exampleRotation)) = ''Bearer''"
  using TokenType_Bearer
          [where P = examplePrimitives
             and env = "exampleEnv 1700000000000000000 10 ''secretA''"
             and s = exampleService and email = janeEmailTyped
             and password = "''securePass1''" and users = "[exampleUser]" and col = "[]"
             and r = "projr (fst exampleLogin)" and col' = "snd exampleLogin"]
        TokenType_Bearer
          [where P = examplePrimitives
             and env = "exampleEnv 1700000100000000000 11 ''secretB''"
             and s = exampleService and tok = "''secretA''" and col = "[exampleRecord]"
             and r = "projr (fst exampleRotation)" and col' = "snd exampleRotation"]
  by (simp add: service_defs example_defs)

text \<open>
  Claim C9. The access token of a pair issued by a successful refresh carries the
  empty email and, as subject, the user identifier of the record that was found; the
  access token of a successful login carries the email stored with the authenticated
  user and that user's identifier.
\<close>

theorem refresh_token_email_empty:
  "(Refresh P env s tok col = (Inr r, col') \<longrightarrow>
      (\<exists>rt c sg. Refresh_lookup env tok col = Inr rt
          \<and> AccessToken r = Compact (Some ''HS256'') c sg
          \<and> Claims.Email c = [] \<and> Subject c = Hex (UserID rt)))
   \<and> (Login P env s email password users col = (Inr r, col') \<longrightarrow>
      (\<exists>u c sg. u \<in> set users \<and> Authenticate P env email password users = Inr u
          \<and> AccessToken r = Compact (Some ''HS256'') c sg
          \<and> Claims.Email c = User.Email u \<and> Subject c = Hex (User.ID u)))"
proof -
  have iss: "\<exists>sg. AccessToken r
               = Compact (Some ''HS256'') (accessClaims (jwt s) (clock env) (Hex uid) em) sg"
    if "issueTokens P env s uid em c = (Inr r, col')" for uid em c
    using issueTokens_cases[OF that] by auto
  have A: "\<exists>rt c sg. Refresh_lookup env tok col = Inr rt
          \<and> AccessToken r = Compact (Some ''HS256'') c sg
          \<and> Claims.Email c = [] \<and> Subject c = Hex (UserID rt)"
    if "Refresh P env s tok col = (Inr r, col')"
  proof -
    from that obtain rt where rt: "Refresh_lookup env tok col = Inr rt"
        "Refresh_rotate P env s rt col = (Inr r, col')"
      using Refresh_Inr by blast
    from iss[OF conjunct2[OF Refresh_rotate_Inr[OF rt(2)]]] rt(1) show ?thesis
      by (auto simp: accessClaims_def)
  qed
  have B: "\<exists>u c sg. u \<in> set users \<and> Authenticate P env email password users = Inr u
          \<and> AccessToken r = Compact (Some ''HS256'') c sg
          \<and> Claims.Email c = User.Email u \<and> Subject c = Hex (User.ID u)"
    if "Login P env s email password users col = (Inr r, col')"
  proof -
    from that obtain u where u: "Authenticate P env email password users = Inr u"
        "issueTokens P env s (User.ID u) (User.Email u) col = (Inr r, col')"
      by (auto simp: Login_def split: sum.splits)
    from u(1) have "u \<in> set users"
      by (auto simp: Authenticate_def FindByEmail_def Let_def find_Some_iff
            split: if_splits option.splits)
    with iss[OF u(2)] u(1) show ?thesis
      by (auto simp: accessClaims_def)
  qed
  from A B show ?thesis
    by blast
qed

theorem refresh_token_email_empty_witness:
  "exampleRotation = (Inr (projr (fst exampleRotation)), snd exampleRotation)
   \<and> (\<exists>rt c sg.
         Refresh_lookup (exampleEnv 1700000100000000000 11 ''secretB'') ''secretA''
           [exampleRecord] = Inr rt
       \<and> AccessToken (projr (fst exampleRotation)) = Compact (Some ''HS256'') c sg
       \<and> Claims.Email c = [] \<and> Subject c = Hex (UserID rt))
   \<and> exampleLogin = (Inr (projr (fst exampleLogin)), snd exampleLogin)
   \<and> (\<exists>u c sg. u \<in> set [exampleUser]
       \<and> Authenticate examplePrimitives (exampleEnv 1700000000000000000 10 ''secretA'')
           janeEmailTyped ''securePass1'' [exampleUser] = Inr u
       \<and> AccessToken (projr (fst exampleLogin)) = Compact (Some ''HS256'') c sg
       \<and> Claims.Email c = User.Email u \<and> Subject c = Hex (User.ID u))"
proof -
  have R: "exampleRotation = (Inr (projr (fst exampleRotation)), snd exampleRotation)"
    by (simp add: service_defs example_defs)
  have L: "exampleLogin = (Inr (projr (fst exampleLogin)), snd exampleLogin)"
    by (simp add: service_defs example_defs)
  from R have R': "Refresh examplePrimitives (exampleEnv 1700000100000000000 11 ''secretB'')
       exampleService ''secretA'' [exampleRecord]
     = (Inr (projr (fst exampleRotation)), snd exampleRotation)"
    by (simp add: exampleRotation_def)
  from L have L': "Login examplePrimitives (exampleEnv 1700000000000000000 10 ''secretA'')
       exampleService janeEmailTyped ''securePass1'' [exampleUser] []
     = (Inr (projr (fst exampleLogin)), snd exampleLogin)"
    by (simp add: exampleLogin_def)
  from refresh_token_email_empty
         [where P = examplePrimitives
            and env = "exampleEnv 1700000100000000000 11 ''secretB''"
            and s = exampleService and tok = "''secretA''" and col = "[exampleRecord]"
            and r = "projr (fst exampleRotation)" and col' = "snd exampleRotation"]
       refresh_token_email_empty
         [where P = examplePrimitives
            and env = "exampleEnv 1700000000000000000 10 ''secretA''"
            and s = exampleService and email = janeEmailTyped
            and password = "''securePass1''" and users = "[exampleUser]" and col = "[]"
            and r = "projr (fst exampleLogin)" and col' = "snd exampleLogin"]
       R R' L L'
  show ?thesis
    by blast
qed

text \<open>
  Claim C10. Login does not depend on the letter case of the email or on white space
  around it: a login with an email and a login with the trimmed, lower-cased email
  return the same result. \<^verbatim>\<open>Authenticate\<close> looks the user up under the trimmed,
  lower-cased email, as \<^verbatim>\<open>Register\<close> stored it, and trimming and lower-casing a second
  time changes nothing. Of the Unicode case table this uses that lower-casing twice is
  lower-casing once and that it maps no character to or from white space.
\<close>

theorem Login_email_normalised:
  assumes "\<forall>r. unicode_ToLower (caseTable P) (unicode_ToLower (caseTable P) r)
                 = unicode_ToLower (caseTable P) r"
      and "\<forall>r. unicode_IsSpace (unicode_ToLower (caseTable P) r) = unicode_IsSpace r"
  shows "Login P env s email password users col
           = Login P env s (ToLower (caseTable P) (TrimSpace email)) password users col"
proof -
  have "Authenticate P env email password users
          = Authenticate P env (ToLower (caseTable P) (TrimSpace email)) password users"
    using assms by (simp add: Authenticate_def normalise_idem)
  then show ?thesis
    by (simp add: Login_def)
qed

theorem Login_email_normalised_witness:
  "(\<forall>r. unicode_ToLower (caseTable examplePrimitives)
            (unicode_ToLower (caseTable examplePrimitives) r)
          = unicode_ToLower (caseTable examplePrimitives) r)
   \<and> (\<forall>r. unicode_IsSpace (unicode_ToLower (caseTable examplePrimitives) r)
            = unicode_IsSpace r)
   \<and> ToLower (caseTable examplePrimitives) (TrimSpace janeEmailTyped) = janeEmail
   \<and> \<not> isl (fst exampleLogin)
   \<and> Login examplePrimitives (exampleEnv 1700000000000000000 10 ''secretA'') exampleService
        janeEmailTyped ''securePass1'' [exampleUser] []
      = Login examplePrimitives (exampleEnv 1700000000000000000 10 ''secretA'')
          exampleService janeEmail ''securePass1'' [exampleUser] []"
proof -
  have a: "\<forall>r. unicode_ToLower (caseTable examplePrimitives)
                  (unicode_ToLower (caseTable examplePrimitives) r)
                = unicode_ToLower (caseTable examplePrimitives) r"
    by (simp add: unicode_ToLower_def examplePrimitives_def)
  have b: "\<forall>r. unicode_IsSpace (unicode_ToLower (caseTable examplePrimitives) r)
                = unicode_IsSpace r"
    by (auto simp add: unicode_ToLower_def unicode_IsSpace_def examplePrimitives_def)
  have c: "ToLower (caseTable examplePrimitives) (TrimSpace janeEmailTyped) = janeEmail"
    by (simp add: ToLower_def TrimSpace_def unicode_ToLower_def unicode_IsSpace_def
        example_defs)
  have d: "\<not> isl (fst exampleLogin)"
    by (simp add: service_defs example_defs)
  from Login_email_normalised
         [OF a b, where env = "exampleEnv 1700000000000000000 10 ''secretA''"
            and s = exampleService and email = janeEmailTyped
            and password = "''securePass1''" and users = "[exampleUser]" and col = "[]"]
  show ?thesis
    using a b c d by simp
qed

end
